theory Spec2Isabelle
  imports Main
begin

section \<open>The ETL tutorial notebook: tasks, targets and the example transform\<close>

text \<open>
  The notebook \<^verbatim>\<open>doc/ETL_Creation_Guide.ipynb\<close> holds three code cells: the class
  \<^verbatim>\<open>TransformTask\<close>, an example \<^verbatim>\<open>run\<close> method for a transform task, and the entry
  point \<^verbatim>\<open>luigi.run(['LoadTask', '--local-scheduler'])\<close>. Everything else is prose.
  The classes \<^verbatim>\<open>ExtractTask\<close> and \<^verbatim>\<open>LoadTask\<close> are named but never defined, and the
  scheduler behind the entry point is the Luigi framework's: neither is modelled here.
\<close>

subsection \<open>Exceptions\<close>

text \<open>
  What the modelled code raises: a missing input file, the two errors of
  \<^verbatim>\<open>pandas.read_csv\<close>, a missing column, and the plain \<^verbatim>\<open>Exception\<close> of Luigi with its
  message.
\<close>

datatype error = FileNotFoundError | EmptyDataError | ParserError | KeyError | Exception string

subsection \<open>Targets and the class TransformTask\<close>

text \<open>
  \<^verbatim>\<open>luigi.LocalTarget(path)\<close> is a reference to a file of the local file system. Its
  constructor refuses a path that is empty:
  \<^verbatim>\<open>
  if not path:
      if not is_tmp:
          raise Exception('path or is_tmp must be set')
  \<close>
  and otherwise keeps the path it was given.
\<close>

record LocalTarget =
  path :: string

definition LocalTarget_init :: "string \<Rightarrow> error + LocalTarget" where
  "LocalTarget_init p =
     (if p = [] then Inl (Exception ''path or is_tmp must be set'') else Inr \<lparr>path = p\<rparr>)"

text \<open>
  \<^verbatim>\<open>
  class TransformTask(luigi.Task):
      output_filename = luigi.Parameter(default='output.csv')

      def requires(self):
          return ExtractTask()

      def output(self):
          return luigi.LocalTarget(self.output_filename)
  \<close>
  An instance holds the value of its one parameter. The constructor is given the
  parameter or not (\<open>None\<close>: not supplied), and falls back on the declared default.
  The method \<^verbatim>\<open>output\<close> is \<open>TransformTask_output\<close> here (\<^verbatim>\<open>output\<close> is a keyword of
  the theory language); it raises what the constructor of the target raises.
  \<^verbatim>\<open>requires\<close> builds an \<^verbatim>\<open>ExtractTask\<close>, a class the notebook does not define, so the
  target that task produces is a parameter of \<open>run\<close> below.
\<close>

record TransformTask =
  output_filename :: string

definition TransformTask_init :: "string option \<Rightarrow> TransformTask" where
  "TransformTask_init arg =
     \<lparr>output_filename = (case arg of None \<Rightarrow> ''output.csv'' | Some name \<Rightarrow> name)\<rparr>"

definition TransformTask_output :: "TransformTask \<Rightarrow> error + LocalTarget" where
  "TransformTask_output self = LocalTarget_init (output_filename self)"

subsection \<open>The pandas values the example uses\<close>

text \<open>
  The example \<^verbatim>\<open>run\<close> method calls four pandas operations: \<^verbatim>\<open>read_csv\<close>,
  \<^verbatim>\<open>pd.Series(list)\<close>, the column assignment \<^verbatim>\<open>dataframe[key] = series\<close> and
  \<^verbatim>\<open>to_csv\<close>. Parsing and printing are parameters of \<open>run\<close>: how pandas turns the text
  of a file into a table and a table into text (the types it infers, the strings it
  reads as missing, the way it prints numbers) is not modelled. The two operations on
  tables are modelled, with pandas' row labels.

  A cell is \<open>Some v\<close> or \<open>None\<close>, the missing value (NaN). A series is the list of its
  (row label, value) pairs; \<^verbatim>\<open>pd.Series(data)\<close> labels the values \<open>0, 1, ...\<close>.
  A data frame has the labels of its rows and its columns in order, each column a name
  and one cell per row. The value of a cell of the table \<open>run\<close> works on is a Python
  string or a value of another type (a number, a boolean), which \<open>run\<close> never looks at.
\<close>

datatype 'v scalar = Str string | Other 'v

type_synonym 'a Series = "(nat \<times> 'a) list"

definition Series :: "'a list \<Rightarrow> 'a Series" where
  "Series data = zip [0..<length data] data"

record 'a DataFrame =
  index :: "nat list"
  columns :: "(string \<times> 'a option list) list"

text \<open>
  \<^verbatim>\<open>series.reindex(labels)\<close>: the value the series has at each label, missing where the
  series has no such label.
\<close>

definition reindex :: "'a Series \<Rightarrow> nat list \<Rightarrow> 'a option list" where
  "reindex s labels = map (map_of s) labels"

text \<open>
  \<^verbatim>\<open>DataFrame.__setitem__(key, series)\<close> first makes sure the frame has row labels
  (\<^verbatim>\<open>_ensure_valid_index\<close>): a frame with no rows takes the labels of a non-empty series,
  every existing column filled with missing values. Then the series is aligned with the
  frame's labels, and the column \<^verbatim>\<open>key\<close> is replaced where the frame has one and added
  as the last column where it has none.
\<close>

definition ensure_valid_index :: "'a DataFrame \<Rightarrow> 'a Series \<Rightarrow> 'a DataFrame" where
  "ensure_valid_index df s =
     (if index df = [] \<and> s \<noteq> []
      then \<lparr>index = map fst s,
            columns = map (\<lambda>(c, _). (c, map (\<lambda>_. None) s)) (columns df)\<rparr>
      else df)"

definition setitem :: "'a DataFrame \<Rightarrow> string \<Rightarrow> 'a Series \<Rightarrow> 'a DataFrame" where
  "setitem df key s =
     (let df1 = ensure_valid_index df s;
          v = reindex s (index df1)
      in if key \<in> set (map fst (columns df1))
         then df1\<lparr>columns := map (\<lambda>(c, old). if c = key then (c, v) else (c, old)) (columns df1)\<rparr>
         else df1\<lparr>columns := columns df1 @ [(key, v)]\<rparr>)"

subsection \<open>The example run method\<close>

text \<open>
  \<^verbatim>\<open>
  def run(self):
      input_target = self.input() # a.k.a self.requires().output()
      output_target = self.output()
      with input_target.open('r') as it, output_target.open('w') as ot:
          dataframe = pandas.read_csv(it)
          dataframe['koolaid'] = pd.Series(['oh', 'yeeeeaaahh'])
          dataframe.to_csv(ot, index=False)
  \<close>
  A path names a file through the path resolution of the operating system, \<open>resolve\<close>:
  \<^verbatim>\<open>./output.csv\<close> and \<^verbatim>\<open>output.csv\<close> are two paths of one file. The file system is a map
  from files to their contents; it has plain files only (no directories, no links).

  The method returns a pair: how it ended (\<open>Inl e\<close>: it raised \<open>e\<close>; \<open>Inr ()\<close>: it
  returned) and the file system it left. \<^verbatim>\<open>self.output()\<close> may raise, before any file is
  opened. Opening a missing input for reading raises, and so may \<^verbatim>\<open>read_csv\<close>. A
  LocalTarget opened for writing collects the output in a temporary file, which replaces
  the target's file when the \<^verbatim>\<open>with\<close> block ends normally and is discarded when it ends
  with an exception: a run that raises leaves every file as it was.

  \<open>read_csv\<close> and \<open>to_csv\<close> stand for the two pandas functions (the second argument of
  \<open>to_csv\<close> is its \<^verbatim>\<open>index\<close> keyword), \<open>input_target\<close> for \<^verbatim>\<open>self.input()\<close>. The cell
  names the pandas module both \<^verbatim>\<open>pandas\<close> and \<^verbatim>\<open>pd\<close> and the notebook imports neither;
  both are read as that module. The \<^verbatim>\<open>run\<close> of the class \<^verbatim>\<open>TransformTask\<close> itself has a
  docstring and comments for a body and is not this method.
\<close>

definition run ::
  "('c \<Rightarrow> error + 'v scalar DataFrame) \<Rightarrow> ('v scalar DataFrame \<Rightarrow> bool \<Rightarrow> 'c) \<Rightarrow>
   (string \<Rightarrow> 'f) \<Rightarrow> LocalTarget \<Rightarrow> TransformTask \<Rightarrow> ('f \<rightharpoonup> 'c) \<Rightarrow>
   (error + unit) \<times> ('f \<rightharpoonup> 'c)" where
  "run read_csv to_csv resolve input_target self fs =
     (case TransformTask_output self of
        Inl e \<Rightarrow> (Inl e, fs)
      | Inr output_target \<Rightarrow>
          (case fs (resolve (path input_target)) of
             None \<Rightarrow> (Inl FileNotFoundError, fs)
           | Some it \<Rightarrow>
               (case read_csv it of
                  Inl e \<Rightarrow> (Inl e, fs)
                | Inr dataframe \<Rightarrow>
                    (Inr (),
                     fs(resolve (path output_target) \<mapsto>
                          to_csv (setitem dataframe ''koolaid''
                                    (Series [Str ''oh'', Str ''yeeeeaaahh''])) False)))))"

subsection \<open>Example tables\<close>

text \<open>
  Three passengers, the table the example makes of them, and a table that already has a
  column \<^verbatim>\<open>koolaid\<close> with what the example makes of it. In the examples a file is given
  by the table \<^verbatim>\<open>read_csv\<close> returns for it, together with the \<^verbatim>\<open>index\<close> flag it was
  written with.
\<close>

definition titanic_sample :: "int scalar DataFrame" where
  "titanic_sample =
     \<lparr>index = [0, 1, 2],
      columns = [(''Name'', [Some (Str ''Allen''), Some (Str ''Braund''), Some (Str ''Cumings'')]),
                 (''Pclass'', [Some (Other 1), Some (Other 3), Some (Other 1)])]\<rparr>"

definition titanic_sample_out :: "int scalar DataFrame" where
  "titanic_sample_out =
     \<lparr>index = [0, 1, 2],
      columns = [(''Name'', [Some (Str ''Allen''), Some (Str ''Braund''), Some (Str ''Cumings'')]),
                 (''Pclass'', [Some (Other 1), Some (Other 3), Some (Other 1)]),
                 (''koolaid'', [Some (Str ''oh''), Some (Str ''yeeeeaaahh''), None])]\<rparr>"

definition koolaid_sample :: "int scalar DataFrame" where
  "koolaid_sample =
     \<lparr>index = [0],
      columns = [(''Name'', [Some (Str ''Allen'')]), (''koolaid'', [Some (Str ''grape'')])]\<rparr>"

definition koolaid_sample_out :: "int scalar DataFrame" where
  "koolaid_sample_out =
     \<lparr>index = [0],
      columns = [(''Name'', [Some (Str ''Allen'')]), (''koolaid'', [Some (Str ''oh'')])]\<rparr>"

subsection \<open>The aggregation of the exercise\<close>

text \<open>
  Modelled from the spec: the transform of the exercise ("aggregate passenger counts by
  class", "compute a group-by count"), which the notebook asks its reader to write and
  does not contain. The three steps are the recipe of the notebook's goals: "groupby
  Pclass column, select Pclass column, then count()", that is
  \<^verbatim>\<open>dataframe.groupby('Pclass')['Pclass'].count()\<close>.

  \<^verbatim>\<open>groupby\<close> makes one group per value of the key column, in ascending order of the
  values, each group the positions of the rows with that value; rows whose key is missing
  belong to no group. Selecting a column gives each group the cells of that column in the
  group's rows. \<^verbatim>\<open>count\<close> gives each group the number of its cells that are not missing.
  A column the frame does not have raises \<^verbatim>\<open>KeyError\<close>.
\<close>

fun dropna :: "'a option list \<Rightarrow> 'a list" where
  "dropna [] = []"
| "dropna (None # cells) = dropna cells"
| "dropna (Some v # cells) = v # dropna cells"

definition groupby :: "('a::linorder) DataFrame \<Rightarrow> string \<Rightarrow> error + ('a \<times> nat list) list" where
  "groupby df by =
     (case map_of (columns df) by of
        None \<Rightarrow> Inl KeyError
      | Some keys \<Rightarrow>
          Inr (map (\<lambda>k. (k, filter (\<lambda>i. keys ! i = Some k) [0..<length keys]))
                 (sort (remdups (dropna keys)))))"

definition groupby_getitem ::
  "'a DataFrame \<Rightarrow> ('k \<times> nat list) list \<Rightarrow> string \<Rightarrow> error + ('k \<times> 'a option list) list" where
  "groupby_getitem df groups col =
     (case map_of (columns df) col of
        None \<Rightarrow> Inl KeyError
      | Some cells \<Rightarrow> Inr (map (\<lambda>(k, rows). (k, map (\<lambda>i. cells ! i) rows)) groups))"

definition count :: "('k \<times> 'a option list) list \<Rightarrow> ('k \<times> nat) list" where
  "count selected = map (\<lambda>(k, cells). (k, length (dropna cells))) selected"

definition passengers_per_class :: "('a::linorder) DataFrame \<Rightarrow> error + ('a \<times> nat) list" where
  "passengers_per_class df =
     (case groupby df ''Pclass'' of
        Inl e \<Rightarrow> Inl e
      | Inr groups \<Rightarrow>
          (case groupby_getitem df groups ''Pclass'' of
             Inl e \<Rightarrow> Inl e
           | Inr selected \<Rightarrow> Inr (count selected)))"

text \<open>Five passengers, one of them with no class recorded.\<close>

definition passengers_sample :: "int DataFrame" where
  "passengers_sample =
     \<lparr>index = [0, 1, 2, 3, 4],
      columns = [(''PassengerId'', [Some 1, Some 2, Some 3, Some 4, Some 5]),
                 (''Pclass'', [Some 3, Some 1, None, Some 3, Some 2])]\<rparr>"

section \<open>Properties\<close>

subsection \<open>Series and column assignment\<close>





lemma names_blank: "map fst (map (\<lambda>(c, _). (c, w)) kvs) = map fst kvs"
  by (induction kvs) auto


lemma map_of_blank: "map_of (map (\<lambda>(c, _). (c, w)) kvs) c = map_option (\<lambda>_. w) (map_of kvs c)"
  by (induction kvs) auto

lemma map_of_append_old:
  "map_of kvs c = Some v \<Longrightarrow> map_of (kvs @ [(key, w)]) c = Some v"
  by (simp add: map_add_Some_iff)

lemma map_of_append_key:
  "key \<notin> set (map fst kvs) \<Longrightarrow> map_of (kvs @ [(key, w)]) key = Some w"
  by (simp add: map_add_Some_iff map_of_eq_None_iff)





subsection \<open>Counting groups\<close>

lemma set_dropna: "set (dropna cells) = {v. Some v \<in> set cells}"
  by (induction cells rule: dropna.induct) auto

lemma dropna_all_Some: "\<forall>c \<in> set cells. c = Some k \<Longrightarrow> length (dropna cells) = length cells"
  by (induction cells rule: dropna.induct) auto

text \<open>The cells a group selects from its own key column are the cells equal to its key.\<close>

lemma cells_of_group:
  "map (\<lambda>i. col ! i) (filter (\<lambda>i. col ! i = Some k) [0..<length col]) =
   filter (\<lambda>c. c = Some k) col"
proof -
  have "filter (\<lambda>c. c = Some k) (map (\<lambda>i. col ! i) [0..<length col]) =
        map (\<lambda>i. col ! i) (filter (\<lambda>i. col ! i = Some k) [0..<length col])"
    by (simp add: filter_map comp_def)
  then show ?thesis by (simp add: map_nth)
qed

lemma group_count:
  "length (dropna (map (\<lambda>i. col ! i) (filter (\<lambda>i. col ! i = Some k) [0..<length col]))) =
   length (filter (\<lambda>c. c = Some k) col)"
  by (simp only: cells_of_group) (rule dropna_all_Some [where k = k], simp)

lemma map_of_tabulate:
  "map_of (map (\<lambda>k. (k, f k)) ks) v = (if v \<in> set ks then Some (f v) else None)"
  by (induction ks) auto

lemma passengers_per_class_eq:
  assumes "map_of (columns df) ''Pclass'' = Some col"
  shows "passengers_per_class df =
           Inr (map (\<lambda>k. (k, length (filter (\<lambda>c. c = Some k) col))) (sort (remdups (dropna col))))"
  using assms
  by (simp add: passengers_per_class_def groupby_def groupby_getitem_def count_def comp_def
      group_count)

subsection \<open>Evaluating the examples\<close>

lemmas run_eval = run_def setitem_def ensure_valid_index_def reindex_def Series_def
  TransformTask_output_def LocalTarget_init_def TransformTask_init_def Let_def
  titanic_sample_def titanic_sample_out_def koolaid_sample_def koolaid_sample_out_def

lemma run_titanic_sample:
  "run (\<lambda>c. Inr (fst c)) (\<lambda>df index. (df, index)) (\<lambda>p. p) \<lparr>path = ''titanic.csv''\<rparr>
     (TransformTask_init None) [''titanic.csv'' \<mapsto> (titanic_sample, False)] =
   (Inr (), [''titanic.csv'' \<mapsto> (titanic_sample, False),
             ''output.csv'' \<mapsto> (titanic_sample_out, False)])"
  by (simp add: run_eval upt_conv_Cons)

subsection \<open>The claims\<close>

text \<open>
  C9, amended: \<^verbatim>\<open>TransformTask.output()\<close> returns a LocalTarget whose path is the value
  of the \<^verbatim>\<open>output_filename\<close> parameter whenever that value is not the empty string, and
  raises \<^verbatim>\<open>Exception('path or is_tmp must be set')\<close> when it is; an instance built with a
  non-empty parameter has a target of that path, and one built without the parameter has
  the target \<^verbatim>\<open>'output.csv'\<close>.
\<close>

theorem TransformTask_output_path:
  "(output_filename self \<noteq> [] \<longrightarrow>
      TransformTask_output self = Inr \<lparr>path = output_filename self\<rparr>)
   \<and> (output_filename self = [] \<longrightarrow>
      TransformTask_output self = Inl (Exception ''path or is_tmp must be set''))
   \<and> (name \<noteq> [] \<longrightarrow>
      TransformTask_output (TransformTask_init (Some name)) = Inr \<lparr>path = name\<rparr>)
   \<and> TransformTask_output (TransformTask_init None) = Inr \<lparr>path = ''output.csv''\<rparr>"
  by (simp add: TransformTask_output_def LocalTarget_init_def TransformTask_init_def)

text \<open>An instance built with the file name \<^verbatim>\<open>counts.csv\<close>.\<close>

theorem TransformTask_output_path_witness:
  "output_filename (TransformTask_init (Some ''counts.csv'')) \<noteq> []
   \<and> ''counts.csv'' \<noteq> []
   \<and> TransformTask_output (TransformTask_init (Some ''counts.csv'')) = Inr \<lparr>path = ''counts.csv''\<rparr>"
proof -
  have h1: "output_filename (TransformTask_init (Some ''counts.csv'')) \<noteq> []"
    by (simp add: TransformTask_init_def)
  have h2: "''counts.csv'' \<noteq> []"
    by simp
  from TransformTask_output_path [of "TransformTask_init (Some ''counts.csv'')" "''counts.csv''"] h2
  have "TransformTask_output (TransformTask_init (Some ''counts.csv'')) = Inr \<lparr>path = ''counts.csv''\<rparr>"
    by blast
  with h1 h2 show ?thesis by blast
qed

text \<open>
  C9 as stated fails for the empty file name: \<^verbatim>\<open>output()\<close> does not return a target, the
  constructor of the target raises.
\<close>

theorem TransformTask_output_empty_counterexample:
  "TransformTask_output (TransformTask_init (Some '''')) =
   Inl (Exception ''path or is_tmp must be set'')"
  by (simp add: TransformTask_output_def LocalTarget_init_def TransformTask_init_def)




text \<open>
  C4, amended: the example \<^verbatim>\<open>run\<close> method opens the input target only for reading and
  the output target only for writing, so for every execution of \<^verbatim>\<open>run\<close> in which the
  input target's file and the file that \<^verbatim>\<open>output_filename\<close> names (the output target's
  file) are different files, the input target's file contents are unchanged and the
  entire effect of the task is the contents written to its output target: every other
  file is as it was, and an execution that raises leaves every file as it was.
\<close>

theorem run_frame:
  assumes "resolve (path input_target) \<noteq> resolve (output_filename self)"
  shows "snd (run read_csv to_csv resolve input_target self fs) (resolve (path input_target)) =
           fs (resolve (path input_target))
         \<and> (\<forall>f. f \<noteq> resolve (output_filename self) \<longrightarrow>
               snd (run read_csv to_csv resolve input_target self fs) f = fs f)
         \<and> (\<forall>e. fst (run read_csv to_csv resolve input_target self fs) = Inl e \<longrightarrow>
               snd (run read_csv to_csv resolve input_target self fs) = fs)"
proof -
  let ?r = "run read_csv to_csv resolve input_target self fs"
  have raised: "snd ?r = fs" if "fst ?r = Inl e" for e
    using that
    by (auto simp add: run_def TransformTask_output_def LocalTarget_init_def
        split: if_splits option.splits sum.splits)
  have others: "snd ?r f = fs f" if "f \<noteq> resolve (output_filename self)" for f
    using that
    by (auto simp add: run_def TransformTask_output_def LocalTarget_init_def
        split: if_splits option.splits sum.splits)
  from others [OF assms] others raised show ?thesis by blast
qed

text \<open>
  The three passengers, read from \<^verbatim>\<open>titanic.csv\<close> and written to \<^verbatim>\<open>output.csv\<close>; and the
  same run when the input file is missing, which raises and writes nothing.
\<close>

theorem run_frame_witness:
  "path \<lparr>path = ''titanic.csv''\<rparr> \<noteq> output_filename (TransformTask_init None)
   \<and> run (\<lambda>c. Inr (fst c)) (\<lambda>df index. (df, index)) (\<lambda>p. p)
        \<lparr>path = ''titanic.csv''\<rparr> (TransformTask_init None)
        [''titanic.csv'' \<mapsto> (titanic_sample, False)] =
      (Inr (), [''titanic.csv'' \<mapsto> (titanic_sample, False),
                ''output.csv'' \<mapsto> (titanic_sample_out, False)])
   \<and> snd (run (\<lambda>c. Inr (fst c)) (\<lambda>df index. (df, index)) (\<lambda>p. p)
        \<lparr>path = ''titanic.csv''\<rparr> (TransformTask_init None)
        [''titanic.csv'' \<mapsto> (titanic_sample, False)]) ''titanic.csv'' =
      Some (titanic_sample, False)
   \<and> path \<lparr>path = ''missing.csv''\<rparr> \<noteq> output_filename (TransformTask_init None)
   \<and> run (\<lambda>c. Inr (fst c)) (\<lambda>df index. (df, index)) (\<lambda>p. p)
        \<lparr>path = ''missing.csv''\<rparr> (TransformTask_init None)
        [''titanic.csv'' \<mapsto> (titanic_sample, False)] =
      (Inl FileNotFoundError, [''titanic.csv'' \<mapsto> (titanic_sample, False)])"
proof -
  let ?fs = "[''titanic.csv'' \<mapsto> (titanic_sample, False)]"
  let ?run = "\<lambda>t. run (\<lambda>c. Inr (fst c)) (\<lambda>df index. (df, index)) (\<lambda>p. p) t
                  (TransformTask_init None) ?fs"
  have h1: "(\<lambda>p. p) (path \<lparr>path = ''titanic.csv''\<rparr>) \<noteq>
            (\<lambda>p. p) (output_filename (TransformTask_init None))"
    by (simp add: TransformTask_init_def)
  have h2: "(\<lambda>p. p) (path \<lparr>path = ''missing.csv''\<rparr>) \<noteq>
            (\<lambda>p. p) (output_filename (TransformTask_init None))"
    by (simp add: TransformTask_init_def)
  note frame = run_frame [where resolve = "\<lambda>p. p" and self = "TransformTask_init None"
      and read_csv = "\<lambda>c. Inr (fst c)" and to_csv = "\<lambda>df index. (df, index)" and fs = ?fs]
  from frame [where input_target = "\<lparr>path = ''titanic.csv''\<rparr>", OF h1]
  have kept: "snd (?run \<lparr>path = ''titanic.csv''\<rparr>) ''titanic.csv'' = ?fs ''titanic.csv''"
    by simp
  have raises: "fst (?run \<lparr>path = ''missing.csv''\<rparr>) = Inl FileNotFoundError"
    by (simp add: run_def TransformTask_output_def LocalTarget_init_def TransformTask_init_def)
  from frame [where input_target = "\<lparr>path = ''missing.csv''\<rparr>", OF h2] raises
  have "snd (?run \<lparr>path = ''missing.csv''\<rparr>) = ?fs"
    by blast
  with raises have failed: "?run \<lparr>path = ''missing.csv''\<rparr> = (Inl FileNotFoundError, ?fs)"
    by (simp add: prod_eq_iff)
  from h1 h2 kept failed run_titanic_sample show ?thesis
    by simp
qed

text \<open>
  C4 as stated fails when the input target and the output target are the same file (the
  required task writes \<^verbatim>\<open>output.csv\<close>, and the parameter has its default value): the
  run ends normally and has replaced the contents of the file it read.
\<close>

theorem run_same_file_counterexample:
  "run (\<lambda>c. Inr (fst c)) (\<lambda>df index. (df, index)) (\<lambda>p. p)
     \<lparr>path = ''output.csv''\<rparr> (TransformTask_init None)
     [''output.csv'' \<mapsto> (titanic_sample, False)] =
   (Inr (), [''output.csv'' \<mapsto> (titanic_sample_out, False)])
   \<and> [''output.csv'' \<mapsto> (titanic_sample_out, False)] (path \<lparr>path = ''output.csv''\<rparr>) \<noteq>
      [''output.csv'' \<mapsto> (titanic_sample, False)] (path \<lparr>path = ''output.csv''\<rparr>)"
  by (simp add: run_eval upt_conv_Cons)

text \<open>
  Two paths of one file are one file: with a path resolution that drops a leading
  \<^verbatim>\<open>./\<close>, a run that reads \<^verbatim>\<open>./output.csv\<close> and writes \<^verbatim>\<open>output.csv\<close> replaces the file
  it read.
\<close>

lemma run_two_paths_one_file:
  "run (\<lambda>c. Inr (fst c)) (\<lambda>df index. (df, index))
     (\<lambda>p. if take 2 p = ''./'' then drop 2 p else p)
     \<lparr>path = ''./output.csv''\<rparr> (TransformTask_init None)
     [''output.csv'' \<mapsto> (titanic_sample, False)] =
   (Inr (), [''output.csv'' \<mapsto> (titanic_sample_out, False)])"
  by (simp add: run_eval upt_conv_Cons)

text \<open>
  C3: for every input table with a \<^verbatim>\<open>Pclass\<close> column, the aggregate made by grouping on
  \<^verbatim>\<open>Pclass\<close>, selecting the \<^verbatim>\<open>Pclass\<close> column and counting exists, has one entry per
  distinct \<^verbatim>\<open>Pclass\<close> value (in ascending order) and maps each such value to the number
  of input rows that have it; a value no row has gets no entry. A missing \<^verbatim>\<open>Pclass\<close> is
  not a value: such rows are counted nowhere.
\<close>

theorem passengers_per_class_counts:
  assumes "map_of (columns df) ''Pclass'' = Some col"
  shows "\<exists>agg. passengers_per_class df = Inr agg
           \<and> sorted (map fst agg) \<and> distinct (map fst agg)
           \<and> (\<forall>v. map_of agg v =
                 (if Some v \<in> set col then Some (length (filter (\<lambda>c. c = Some v) col)) else None))"
proof -
  let ?agg = "map (\<lambda>k. (k, length (filter (\<lambda>c. c = Some k) col))) (sort (remdups (dropna col)))"
  have keys: "map fst ?agg = sort (remdups (dropna col))"
    by (simp add: comp_def)
  have "sorted (map fst ?agg)" "distinct (map fst ?agg)"
    unfolding keys by simp_all
  moreover have "map_of ?agg v =
      (if Some v \<in> set col then Some (length (filter (\<lambda>c. c = Some v) col)) else None)" for v
    by (simp only: map_of_tabulate) (simp add: set_dropna)
  ultimately show ?thesis
    using passengers_per_class_eq [OF assms] by blast
qed

text \<open>Five passengers: one in first class, one in second, two in third, one unknown.\<close>

theorem passengers_per_class_counts_witness:
  "map_of (columns passengers_sample) ''Pclass'' = Some [Some 3, Some 1, None, Some 3, Some 2]
   \<and> passengers_per_class passengers_sample = Inr [(1, 1), (2, 1), (3, 2)]
   \<and> (\<exists>agg. passengers_per_class passengers_sample = Inr agg \<and> map_of agg 3 = Some 2
          \<and> map_of agg 4 = None)"
proof -
  have h: "map_of (columns passengers_sample) ''Pclass'' = Some [Some 3, Some 1, None, Some 3, Some 2]"
    by (simp add: passengers_sample_def)
  have e: "passengers_per_class passengers_sample = Inr [(1, 1), (2, 1), (3, 2)]"
    by (simp add: passengers_per_class_eq [OF h])
  from passengers_per_class_counts [OF h] obtain agg where
    a: "passengers_per_class passengers_sample = Inr agg"
    and m: "\<And>v. map_of agg v =
      (if Some v \<in> set [Some 3, Some 1, None, Some 3, Some 2]
       then Some (length (filter (\<lambda>c. c = Some v) [Some 3, Some 1, None, Some 3, Some 2])) else None)"
    by blast
  have "map_of agg 3 = Some 2" "map_of agg 4 = None"
    by (simp_all add: m)
  with a have "\<exists>agg. passengers_per_class passengers_sample = Inr agg \<and> map_of agg 3 = Some 2
          \<and> map_of agg 4 = None"
    by blast
  with h e show ?thesis by blast
qed

end
